theory Spec2Isabelle
  imports Complex_Main
begin

section \<open>Python values and errors\<close>

text \<open>
  The pipeline of \<^verbatim>\<open>preprocess.py\<close> works on mono audio tensors of shape
  \<^verbatim>\<open>(1, n)\<close>; every operation modelled here acts along the sample axis only, so a
  buffer is the list of its samples and \<^verbatim>\<open>wav.shape[1]\<close> is its length.
  Exceptions are values of \<open>py_error\<close>: those that the Python semantics raises on the
  data, \<open>LoadError\<close> for torchaudio failing to read a file, and \<open>FileNotFoundError\<close> for
  \<^verbatim>\<open>subprocess.run\<close> failing to start its program.
  Python floats are modelled by exact numbers (\<open>rat\<close> for tempo ratios, \<open>real\<close> where a
  square root is taken).
\<close>

datatype py_error = ZeroDivisionError | TypeError | IndexError | LoadError | FileNotFoundError

text \<open>\<^verbatim>\<open>xs[:e]\<close>: a negative end counts from the end of the buffer.\<close>

definition slice_to :: "'a list \<Rightarrow> int \<Rightarrow> 'a list" where
  "slice_to xs e = (if 0 \<le> e then take (nat e) xs else take (nat (int (length xs) + e)) xs)"

text \<open>\<^verbatim>\<open>xs[s:]\<close> and \<^verbatim>\<open>xs[s:e]\<close> with Python's clamping of both bounds.\<close>

definition slice_bound :: "nat \<Rightarrow> int \<Rightarrow> nat" where
  "slice_bound n i = (if i < 0 then nat (int n + i) else min (nat i) n)"

definition slice_from :: "'a list \<Rightarrow> int \<Rightarrow> 'a list" where
  "slice_from xs s = drop (slice_bound (length xs) s) xs"

definition slice_range :: "'a list \<Rightarrow> int \<Rightarrow> int \<Rightarrow> 'a list" where
  "slice_range xs s e =
     (let a = slice_bound (length xs) s; b = slice_bound (length xs) e
      in take (b - a) (drop a xs))"

text \<open>\<^verbatim>\<open>wav.repeat(1, k)\<close>: the buffer tiled \<open>k\<close> times along the sample axis.\<close>

definition repeat :: "'a list \<Rightarrow> int \<Rightarrow> 'a list" where
  "repeat wav k = concat (replicate (nat k) wav)"

text \<open>\<^verbatim>\<open>int(np.ceil(a / b))\<close> on Python integers: true division raises on a zero divisor.\<close>

definition ceil_div :: "int \<Rightarrow> int \<Rightarrow> py_error + int" where
  "ceil_div a b = (if b = 0 then Inl ZeroDivisionError else Inr \<lceil>rat_of_int a / rat_of_int b\<rceil>)"

section \<open>Length Normalizer\<close>

definition ensure_exact_length :: "'a list \<Rightarrow> int \<Rightarrow> py_error + 'a list" where
  "ensure_exact_length wav target_samples =
     (let current_samples = int (length wav) in
      if current_samples = target_samples then Inr wav
      else if current_samples < target_samples then
        (case ceil_div target_samples current_samples of
           Inl e \<Rightarrow> Inl e
         | Inr loops_needed \<Rightarrow>
             (let extended_wav = repeat wav loops_needed
              in Inr (slice_to extended_wav target_samples)))
      else Inr (slice_to wav target_samples))"

section \<open>Beat confidence\<close>

text \<open>
  \<^verbatim>\<open>np.diff\<close>, \<^verbatim>\<open>np.mean\<close> and \<^verbatim>\<open>np.std\<close> (the population standard deviation) on
  exact reals. The quotient \<^verbatim>\<open>std_interval / mean_interval\<close> is undefined for a zero mean
  (numpy yields \<^verbatim>\<open>inf\<close> or \<^verbatim>\<open>nan\<close> with a warning); the model makes that an error value, so
  that the guard of the source is visible.
\<close>

definition np_diff :: "'a::minus list \<Rightarrow> 'a list" where
  "np_diff xs = map (\<lambda>(a, b). b - a) (zip xs (tl xs))"

definition np_mean :: "real list \<Rightarrow> real" where
  "np_mean xs = sum_list xs / real (length xs)"

definition np_std :: "real list \<Rightarrow> real" where
  "np_std xs = sqrt (np_mean (map (\<lambda>x. \<bar>x - np_mean xs\<bar>\<^sup>2) xs))"

definition float_div :: "real \<Rightarrow> real \<Rightarrow> py_error + real" where
  "float_div a b = (if b = 0 then Inl ZeroDivisionError else Inr (a / b))"

definition calculate_beat_confidence :: "real list \<Rightarrow> py_error + real" where
  "calculate_beat_confidence beat_times =
     (if length beat_times < 3 then Inr 0
      else
        let intervals = np_diff beat_times in
        if length intervals = 0 then Inr 0
        else
          let mean_interval = np_mean intervals;
              std_interval = np_std intervals
          in if mean_interval = 0 then Inr 0
             else (case float_div std_interval mean_interval of
                     Inl e \<Rightarrow> Inl e
                   | Inr coefficient_of_variation \<Rightarrow>
                       (let confidence = max 0 (1 - coefficient_of_variation * 2)
                        in Inr (min 1 confidence))))"

section \<open>Time-signature estimator\<close>

text \<open>
  The librosa and scipy calls are parameters: \<open>onset\<close> is the onset-strength envelope
  (\<open>None\<close> when loading the file or computing the envelope raised), \<open>beat\<close> the beat frames
  of \<^verbatim>\<open>beat_track\<close> (\<open>None\<close> when it raised), \<open>find_peaks\<close> scipy's peak finder with a
  height threshold. Frame positions are array indices, hence natural numbers.
\<close>

text \<open>\<^verbatim>\<open>onset_env[np.clip(beat_frames, 0, len(onset_env)-1)]\<close>: on an empty envelope
  the clipped index is \<open>-1\<close> and the read raises.\<close>

definition clipped_strengths :: "real list \<Rightarrow> nat list \<Rightarrow> py_error + real list" where
  "clipped_strengths onset_env beat_frames =
     (if onset_env = [] then (if beat_frames = [] then Inr [] else Inl IndexError)
      else Inr (map (\<lambda>f. onset_env ! min f (length onset_env - 1)) beat_frames))"

text \<open>\<^verbatim>\<open>np.histogram(v, bins=edges)\<close>: half-open bins, the last one closed.\<close>

definition np_histogram :: "int list \<Rightarrow> int list \<Rightarrow> nat list" where
  "np_histogram v edges =
     map (\<lambda>i. length (filter (\<lambda>x. edges ! i \<le> x \<and>
                 (if i + 2 = length edges then x \<le> edges ! (i + 1) else x < edges ! (i + 1))) v))
         [0..<length edges - 1]"

fun argmax_from :: "nat list \<Rightarrow> nat \<Rightarrow> nat \<Rightarrow> nat \<Rightarrow> nat" where
  "argmax_from [] i best_i best_v = best_i"
| "argmax_from (x # xs) i best_i best_v =
     (if best_v < x then argmax_from xs (i + 1) i x else argmax_from xs (i + 1) best_i best_v)"

text \<open>\<^verbatim>\<open>np.argmax\<close>: the first position of the maximum.\<close>

definition np_argmax :: "nat list \<Rightarrow> nat" where
  "np_argmax xs = (case xs of [] \<Rightarrow> 0 | x # rest \<Rightarrow> argmax_from rest 1 0 x)"

definition estimate_time_signature ::
  "(real list \<Rightarrow> real \<Rightarrow> nat list) \<Rightarrow> real list option \<Rightarrow> nat list option \<Rightarrow> int" where
  "estimate_time_signature find_peaks onset beat =
     (case onset of
        None \<Rightarrow> 0
      | Some onset_env \<Rightarrow>
          (case beat of
             None \<Rightarrow> 0
           | Some beat_frames \<Rightarrow>
               if length beat_frames < 8 then 4
               else
                 (case clipped_strengths onset_env beat_frames of
                    Inl e \<Rightarrow> 0
                  | Inr beat_strengths \<Rightarrow>
                      (let peaks = find_peaks beat_strengths (np_mean beat_strengths) in
                       if length peaks > 2 then
                         (let intervals = np_diff (map int peaks) in
                          if length intervals > 0 then
                            (let bins = map int [1..<9];
                                 hist = np_histogram intervals bins;
                                 est = butlast bins ! np_argmax hist
                             in if est \<in> set [3, 4, 6] then est else 4)
                          else 4)
                       else 4))))"

section \<open>Downbeat estimator\<close>

text \<open>
  \<^verbatim>\<open>while pos < len(valid_beat_frames): downbeat_indices.append(pos); pos += time_signature\<close>.
  The loop is entered only after \<^verbatim>\<open>find_peaks(..., distance=time_signature)\<close> returned, and
  scipy rejects a distance below 1, so the stride is positive whenever the loop runs.
\<close>

function downbeat_positions :: "nat \<Rightarrow> nat \<Rightarrow> nat \<Rightarrow> nat list" where
  "downbeat_positions pos n time_signature =
     (if pos < n \<and> 0 < time_signature
      then pos # downbeat_positions (pos + time_signature) n time_signature else [])"
  by pat_completeness auto
termination
  by (relation "measure (\<lambda>(pos, n, time_signature). n - pos)") auto

text \<open>
  The value returned by \<^verbatim>\<open>estimate_downbeats_librosa\<close>: \<open>Some\<close> of an index array, or
  \<open>None\<close> for Python's \<^verbatim>\<open>None\<close>, which a function returns when it ends without a
  \<^verbatim>\<open>return\<close>. \<open>onset\<close> is the onset envelope and \<open>chroma\<close> the beat-synchronous chroma
  strength (\<open>None\<close> when the librosa call raised); \<open>find_peaks\<close> is scipy's peak finder with
  a minimum distance, \<open>None\<close> when it raised.
\<close>

definition estimate_downbeats_librosa ::
  "(real list \<Rightarrow> nat \<Rightarrow> nat list option) \<Rightarrow> real list option \<Rightarrow> real list option
     \<Rightarrow> nat list \<Rightarrow> nat \<Rightarrow> nat list option" where
  "estimate_downbeats_librosa find_peaks onset chroma beat_frames time_signature =
     (if length beat_frames < time_signature
      then Some (if length beat_frames > 0 then [0] else [])
      else
        (case onset of
           None \<Rightarrow> Some []
         | Some onset_env \<Rightarrow>
             (let valid_beat_frames = filter (\<lambda>f. f < length onset_env) beat_frames in
              if length valid_beat_frames = 0 then Some []
              else
                (let beat_strengths = map (\<lambda>f. onset_env ! f) valid_beat_frames in
                 case chroma of
                   None \<Rightarrow> Some []
                 | Some chroma_strength \<Rightarrow>
                     (let min_length = min (length beat_strengths) (length chroma_strength);
                          beat_strengths = take min_length beat_strengths;
                          chroma_strength = take min_length chroma_strength;
                          combined_strength =
                            map (\<lambda>(b, c). b * (7 / 10) + c * (3 / 10))
                              (zip beat_strengths chroma_strength)
                      in case find_peaks combined_strength time_signature of
                           None \<Rightarrow> Some []
                         | Some peaks \<Rightarrow>
                             if length peaks > 0 then
                               (let first_strong_beat =
                                      (if peaks ! 0 < time_signature then peaks ! 0 else 0)
                                in Some (downbeat_positions first_strong_beat
                                           (length valid_beat_frames) time_signature))
                             else None)))))"

section \<open>Tempo Converter\<close>

text \<open>
  The two \<^verbatim>\<open>while\<close> loops that build the \<^verbatim>\<open>atempo\<close> filter chain, on exact rationals.
  The chain is the list of factors, one per \<^verbatim>\<open>atempo=factor\<close> entry. A loop that does not
  end has the value \<open>None\<close>.
\<close>

partial_function (option) atempo_up :: "rat \<Rightarrow> rat list \<Rightarrow> rat list option" where
  "atempo_up remaining atempo_chain =
     (if remaining > 1
      then atempo_up (remaining / min 2 remaining) (atempo_chain @ [min 2 remaining])
      else Some atempo_chain)"

partial_function (option) atempo_down :: "rat \<Rightarrow> rat list \<Rightarrow> rat list option" where
  "atempo_down remaining atempo_chain =
     (if remaining < 1
      then atempo_down (remaining / max (1 / 2) remaining) (atempo_chain @ [max (1 / 2) remaining])
      else Some atempo_chain)"

definition build_atempo_chain :: "rat \<Rightarrow> rat list option" where
  "build_atempo_chain speed_ratio =
     (if speed_ratio > 2 then atempo_up speed_ratio []
      else if speed_ratio < 1 / 2 then atempo_down speed_ratio []
      else Some [speed_ratio])"

text \<open>
  The external calls of \<^verbatim>\<open>tempo_convert_ffmpeg\<close>. \<open>run_ffmpeg_command\<close> is the source's
  function of that name: \<open>Inr True\<close> when ffmpeg exits with status 0, \<open>Inr False\<close> when
  \<^verbatim>\<open>subprocess.run\<close> raises \<^verbatim>\<open>CalledProcessError\<close>, the only exception the source catches,
  and \<open>Inl e\<close> when \<^verbatim>\<open>subprocess.run\<close> raises anything else, which escapes. \<open>path_exists\<close>
  tells whether a file exists once both commands have run, \<open>detect_bpm\<close> is the BPM
  reported for a file (the source's \<^verbatim>\<open>detect_bpm\<close> catches every exception), and
  \<open>info_sample_rate\<close> is the sample rate read by \<^verbatim>\<open>torchaudio.info\<close>, or \<open>Inl e\<close> when that
  call raises; the source does not guard it.
\<close>

datatype ffmpeg_cmd =
    Cmd_atempo string "rat list" int string
  | Cmd_asetrate string int int string


record tempo_ext =
  run_ffmpeg_command :: "ffmpeg_cmd \<Rightarrow> py_error + bool"
  path_exists :: "string \<Rightarrow> bool"
  detect_bpm :: "string \<Rightarrow> rat"
  info_sample_rate :: "string \<Rightarrow> py_error + int"

definition basename :: "string \<Rightarrow> string" where
  "basename path = rev (takeWhile (\<lambda>c. c \<noteq> CHR ''/'') (rev path))"

text \<open>Python's \<^verbatim>\<open>int(x)\<close> on a float: truncation towards zero.\<close>

definition py_int :: "'a::floor_ceiling \<Rightarrow> int" where
  "py_int x = (if 0 \<le> x then \<lfloor>x\<rfloor> else \<lceil>x\<rceil>)"

text \<open>
  \<open>best\<close> holds \<^verbatim>\<open>(best_method, best_file, best_error)\<close>, which the source assigns
  together; \<open>None\<close> is the initial \<^verbatim>\<open>(None, None, inf)\<close>, below which every error lies.
\<close>

definition consider_candidate ::
  "tempo_ext \<Rightarrow> bool \<Rightarrow> rat \<Rightarrow> string \<Rightarrow> string \<Rightarrow> (string \<times> string \<times> rat) option
     \<Rightarrow> (string \<times> string \<times> rat) option" where
  "consider_candidate ext success target_bpm method output best =
     (if success \<and> path_exists ext output then
        (let bpm = detect_bpm ext output;
             error = \<bar>bpm - target_bpm\<bar>
         in if (case best of None \<Rightarrow> True | Some (m, f, best_error) \<Rightarrow> error < best_error)
            then Some (method, output, error) else best)
      else best)"

text \<open>
  The result is \<open>None\<close> when the chain loop does not end, \<open>Some (Inl e)\<close> when the
  call raises \<open>e\<close>, and \<open>Some (Inr file)\<close> when it returns \<open>file\<close>. The calls are made
  in the order of the source: the \<^verbatim>\<open>atempo\<close> command, \<^verbatim>\<open>torchaudio.info\<close>, the
  \<^verbatim>\<open>asetrate\<close> command. \<open>asetrate\<close> is the truncated exact product; the double-precision
  product of the source can truncate to one less, and no property below depends on its
  value.
\<close>

definition tempo_convert_ffmpeg ::
  "tempo_ext \<Rightarrow> string \<Rightarrow> rat \<Rightarrow> rat \<Rightarrow> int \<Rightarrow> (py_error + string) option" where
  "tempo_convert_ffmpeg ext input_file target_bpm original_bpm target_sample_rate =
     (if original_bpm = 0 then Some (Inl ZeroDivisionError)
      else
        (let speed_ratio = target_bpm / original_bpm;
             output_atempo = ''temp_atempo_'' @ basename input_file;
             output_asetrate = ''temp_asetrate_'' @ basename input_file
         in case build_atempo_chain speed_ratio of
              None \<Rightarrow> None
            | Some atempo_chain \<Rightarrow>
                (let cmd_atempo =
                       Cmd_atempo input_file atempo_chain target_sample_rate output_atempo
                 in case run_ffmpeg_command ext cmd_atempo of
                      Inl e \<Rightarrow> Some (Inl e)
                    | Inr success_atempo \<Rightarrow>
                        (case info_sample_rate ext input_file of
                           Inl e \<Rightarrow> Some (Inl e)
                         | Inr original_sr \<Rightarrow>
                             (let asetrate = py_int (rat_of_int original_sr * speed_ratio);
                                  cmd_asetrate =
                                    Cmd_asetrate input_file asetrate target_sample_rate
                                      output_asetrate
                              in case run_ffmpeg_command ext cmd_asetrate of
                                   Inl e \<Rightarrow> Some (Inl e)
                                 | Inr success_asetrate \<Rightarrow>
                                     (let best = None;
                                          best = consider_candidate ext success_atempo target_bpm
                                                   ''atempo'' output_atempo best;
                                          best = consider_candidate ext success_asetrate target_bpm
                                                   ''asetrate'' output_asetrate best
                                      in case best of
                                           Some (best_method, best_file, best_error) \<Rightarrow>
                                             Some (Inr best_file)
                                         | None \<Rightarrow> Some (Inr input_file)))))))"



text \<open>
  An environment whose input file ffmpeg rejects and \<^verbatim>\<open>torchaudio.info\<close> cannot read.
\<close>

definition unreadable_input :: tempo_ext where
  "unreadable_input =
     \<lparr>run_ffmpeg_command = (\<lambda>cmd. Inr False), path_exists = (\<lambda>p. False),
      detect_bpm = (\<lambda>p. 120), info_sample_rate = (\<lambda>p. Inl LoadError)\<rparr>"

section \<open>Beat-Aligned Windower\<close>

definition TARGET_SAMPLE_RATE :: int where
  "TARGET_SAMPLE_RATE = 44100"

definition TARGET_DURATION :: int where
  "TARGET_DURATION = 16"

definition TARGET_BPM :: int where
  "TARGET_BPM = 120"

text \<open>
  The tuple returned by \<^verbatim>\<open>detect_beats_and_downbeats\<close>; \<open>None\<close> is Python's
  \<^verbatim>\<open>None\<close>.
\<close>

record detection =
  det_beat_times :: "real list option"
  det_downbeat_indices :: "nat list option"
  det_bpm :: "real option"
  det_confidence :: real

text \<open>
  The \<^verbatim>\<open>beat_info\<close> dictionary. A key that a path of the source does not set is
  \<open>None\<close> in the fields for \<^verbatim>\<open>num_beats\<close>, \<^verbatim>\<open>num_downbeats\<close>, \<^verbatim>\<open>start_sample\<close>,
  \<^verbatim>\<open>target_samples\<close> and \<^verbatim>\<open>actual_samples\<close>.
\<close>

record beat_info =
  info_detected_bpm :: "real option"
  info_confidence :: real
  info_num_beats :: "nat option"
  info_num_downbeats :: "nat option"
  info_aligned :: bool
  info_start_sample :: "int option"
  info_target_samples :: "int option"
  info_actual_samples :: "nat option"

definition target_samples_of :: "int \<Rightarrow> int \<Rightarrow> int" where
  "target_samples_of target_beats target_sample_rate =
     (let target_duration = real_of_int target_beats * (60 / real_of_int TARGET_BPM)
      in py_int (target_duration * real_of_int target_sample_rate))"

text \<open>\<^verbatim>\<open>a[i]\<close> and \<^verbatim>\<open>a[idx]\<close> on a numpy array, for non-negative indices.\<close>

definition np_index :: "'a list \<Rightarrow> nat \<Rightarrow> py_error + 'a" where
  "np_index xs i = (if i < length xs then Inr (xs ! i) else Inl IndexError)"

definition np_take :: "'a list \<Rightarrow> nat list \<Rightarrow> py_error + 'a list" where
  "np_take xs idx =
     (if list_all (\<lambda>i. i < length xs) idx then Inr (map (\<lambda>i. xs ! i) idx) else Inl IndexError)"

text \<open>The fallback of the \<^verbatim>\<open>try\<close> body: duration-based processing.\<close>

definition duration_based ::
  "'a list \<Rightarrow> int \<Rightarrow> beat_info \<Rightarrow> 'a list option
     \<Rightarrow> py_error + ('a list \<times> beat_info) \<times> 'a list option" where
  "duration_based wav target_samples info output_file =
     (case ensure_exact_length wav target_samples of
        Inl e \<Rightarrow> Inl e
      | Inr processed_wav \<Rightarrow>
          Inr ((processed_wav,
                info\<lparr>info_target_samples := Some target_samples,
                     info_actual_samples := Some (length processed_wav)\<rparr>),
               Some processed_wav))"

text \<open>The \<^verbatim>\<open>for downbeat_idx in downbeat_indices\<close> loop with its \<^verbatim>\<open>break\<close>.\<close>

fun find_start :: "int list \<Rightarrow> nat \<Rightarrow> int \<Rightarrow> nat list \<Rightarrow> py_error + int option" where
  "find_start beat_samples n_beats target_beats [] = Inr None"
| "find_start beat_samples n_beats target_beats (downbeat_idx # rest) =
     (case np_index beat_samples downbeat_idx of
        Inl e \<Rightarrow> Inl e
      | Inr potential_start \<Rightarrow>
          (let remaining_beats = int n_beats - int downbeat_idx in
           if remaining_beats \<ge> target_beats then Inr (Some potential_start)
           else find_start beat_samples n_beats target_beats rest))"

text \<open>The segment taken from \<open>start_sample\<close>, with the new value of \<^verbatim>\<open>aligned\<close>.\<close>

definition extract_segment :: "'a list \<Rightarrow> int \<Rightarrow> int \<Rightarrow> py_error + 'a list \<times> bool" where
  "extract_segment wav start_sample target_samples =
     (let end_sample = start_sample + target_samples;
          n = int (length wav)
      in if start_sample \<ge> n then Inr (wav, False)
         else if end_sample \<le> n then Inr (slice_range wav start_sample end_sample, True)
         else
           (let available_samples = n - start_sample;
                aligned_wav = slice_from wav start_sample
            in if available_samples < target_samples then
                 (case ceil_div target_samples available_samples of
                    Inl e \<Rightarrow> Inl e
                  | Inr loops_needed \<Rightarrow> Inr (repeat aligned_wav loops_needed, True))
               else Inr (aligned_wav, True)))"

definition downbeat_aligned ::
  "'a list \<Rightarrow> real list \<Rightarrow> nat list \<Rightarrow> int \<Rightarrow> int \<Rightarrow> int \<Rightarrow> beat_info \<Rightarrow> 'a list option
     \<Rightarrow> py_error + ('a list \<times> beat_info) \<times> 'a list option" where
  "downbeat_aligned wav bt db target_beats target_sample_rate target_samples info output_file =
     (let beat_samples = map (\<lambda>t. py_int (t * real_of_int target_sample_rate)) bt in
      case np_take beat_samples db of
        Inl e \<Rightarrow> Inl e
      | Inr downbeat_samples \<Rightarrow>
          (case find_start beat_samples (length bt) target_beats db of
             Inl e \<Rightarrow> Inl e
           | Inr found \<Rightarrow>
               (let start_sample =
                      (case found of
                         Some s \<Rightarrow> s
                       | None \<Rightarrow> (if length downbeat_samples > 0 then downbeat_samples ! 0 else 0))
                in case extract_segment wav start_sample target_samples of
                     Inl e \<Rightarrow> Inl e
                   | Inr (segment, aligned) \<Rightarrow>
                       (case ensure_exact_length segment target_samples of
                          Inl e \<Rightarrow> Inl e
                        | Inr processed_wav \<Rightarrow>
                            Inr ((processed_wav,
                                  info\<lparr>info_aligned := aligned,
                                       info_start_sample := Some start_sample,
                                       info_target_samples := Some target_samples,
                                       info_actual_samples := Some (length processed_wav)\<rparr>),
                                 Some processed_wav)))))"

text \<open>The \<^verbatim>\<open>beat_info\<close> dictionary as first built from the detection result.\<close>

definition initial_beat_info :: "detection \<Rightarrow> beat_info" where
  "initial_beat_info det =
     \<lparr>info_detected_bpm = det_bpm det,
      info_confidence = det_confidence det,
      info_num_beats = Some (case det_beat_times det of None \<Rightarrow> 0 | Some bt \<Rightarrow> length bt),
      info_num_downbeats =
        Some (case det_downbeat_indices det of None \<Rightarrow> 0 | Some db \<Rightarrow> length db),
      info_aligned = False,
      info_start_sample = None,
      info_target_samples = None,
      info_actual_samples = None\<rparr>"

text \<open>
  The \<^verbatim>\<open>try\<close> body of \<^verbatim>\<open>align_to_downbeat_and_normalize_beats\<close>. \<open>wav\<close> is the loaded
  file, mono and at the target rate; \<open>output_file\<close> is the content of \<^verbatim>\<open>output_path\<close>
  (\<open>None\<close>: no such file), which \<^verbatim>\<open>torchaudio.save\<close> replaces. \<^verbatim>\<open>len(None)\<close> raises
  \<^verbatim>\<open>TypeError\<close>.
\<close>

definition align_try ::
  "'a list \<Rightarrow> detection \<Rightarrow> int \<Rightarrow> int \<Rightarrow> real \<Rightarrow> 'a list option
     \<Rightarrow> py_error + ('a list \<times> beat_info) \<times> 'a list option" where
  "align_try wav det target_beats target_sample_rate confidence_threshold output_file =
     (let info = initial_beat_info det;
          target_samples = target_samples_of target_beats target_sample_rate
      in case det_beat_times det of
           None \<Rightarrow> duration_based wav target_samples info output_file
         | Some bt \<Rightarrow>
             if det_confidence det < confidence_threshold \<or> length bt < 4
             then duration_based wav target_samples info output_file
             else
               (case det_downbeat_indices det of
                  None \<Rightarrow> Inl TypeError
                | Some db \<Rightarrow>
                    if length db = 0 then duration_based wav target_samples info output_file
                    else downbeat_aligned wav bt db target_beats target_sample_rate
                           target_samples info output_file))"

text \<open>The \<^verbatim>\<open>except\<close> handler: the file is loaded again and processed by duration.\<close>

definition align_except ::
  "'a list option \<Rightarrow> int \<Rightarrow> int \<Rightarrow> 'a list option
     \<Rightarrow> ('a list \<times> beat_info) option \<times> 'a list option" where
  "align_except loaded target_beats target_sample_rate output_file =
     (case loaded of
        None \<Rightarrow> (None, output_file)
      | Some wav \<Rightarrow>
          (let target_samples = target_samples_of target_beats target_sample_rate in
           case ensure_exact_length wav target_samples of
             Inl e \<Rightarrow> (None, output_file)
           | Inr processed_wav \<Rightarrow>
               (Some (processed_wav,
                      \<lparr>info_detected_bpm = Some (real_of_int TARGET_BPM),
                       info_confidence = 0,
                       info_num_beats = None,
                       info_num_downbeats = None,
                       info_aligned = False,
                       info_start_sample = None,
                       info_target_samples = Some target_samples,
                       info_actual_samples = Some (length processed_wav)\<rparr>),
                Some processed_wav)))"

text \<open>
  \<^verbatim>\<open>align_to_downbeat_and_normalize_beats\<close>. \<open>loaded\<close> is what \<^verbatim>\<open>torchaudio.load\<close>,
  the mono mix and the resampler make of \<^verbatim>\<open>audio_path\<close> (\<open>None\<close>: it raised), \<open>det\<close> the
  detection result for that file. The first component of the result is \<open>None\<close> for
  \<^verbatim>\<open>(False, None, None)\<close> and \<open>Some (processed_wav, beat_info)\<close> for
  \<^verbatim>\<open>(True, processed_wav, beat_info)\<close>; the second is the content of \<^verbatim>\<open>output_path\<close>
  after the call.
\<close>

definition align_to_downbeat_and_normalize_beats ::
  "'a list option \<Rightarrow> detection \<Rightarrow> int \<Rightarrow> int \<Rightarrow> real \<Rightarrow> 'a list option
     \<Rightarrow> ('a list \<times> beat_info) option \<times> 'a list option" where
  "align_to_downbeat_and_normalize_beats loaded det target_beats target_sample_rate
       confidence_threshold output_file =
     (case (case loaded of
              None \<Rightarrow> Inl LoadError
            | Some wav \<Rightarrow> align_try wav det target_beats target_sample_rate
                            confidence_threshold output_file) of
        Inr (result, output_file') \<Rightarrow> (Some result, output_file')
      | Inl e \<Rightarrow> align_except loaded target_beats target_sample_rate output_file)"

section \<open>Per-file pipeline with beat alignment\<close>

datatype status = Success | Skipped_time_sig | Failed

datatype process_info = No_info | Beat_info beat_info | Time_sig_mismatch int int

text \<open>
  The further external calls of \<^verbatim>\<open>process_wav_with_beat_alignment\<close>, each a function of
  the path it is given: \<^verbatim>\<open>os.path.exists\<close> on the input, \<^verbatim>\<open>estimate_time_signature\<close>,
  \<^verbatim>\<open>get_file_bpm\<close>, the audio that the windower loads from a file and the detection
  result for it.
\<close>

record 'a file_ext = tempo_ext +
  input_exists :: "string \<Rightarrow> bool"
  time_signature_of :: "string \<Rightarrow> int"
  file_bpm :: "string \<Rightarrow> rat option"
  load_audio :: "string \<Rightarrow> 'a list option"
  beats_of :: "string \<Rightarrow> detection"

text \<open>
  Step 1 of the source: the working file and \<^verbatim>\<open>final_bpm\<close>. \<^verbatim>\<open>original_bpm\<close> is
  tested for truth, so \<^verbatim>\<open>None\<close> and \<open>0\<close> both skip the conversion. An exception of
  \<^verbatim>\<open>tempo_convert_ffmpeg\<close> or of \<^verbatim>\<open>torchaudio.info\<close> escapes.
\<close>

definition tempo_step ::
  "('a, 'b) file_ext_scheme \<Rightarrow> string \<Rightarrow> rat \<Rightarrow> bool \<Rightarrow> int \<Rightarrow> (py_error + string \<times> rat) option" where
  "tempo_step ext file_path target_bpm preserve_bpm target_sample_rate =
     (let original_bpm = file_bpm ext file_path;
          temp_file = ''temp_before_alignment_'' @ basename file_path;
          truthy = (case original_bpm of None \<Rightarrow> False | Some b \<Rightarrow> b \<noteq> 0);
          bpm = (case original_bpm of None \<Rightarrow> 0 | Some b \<Rightarrow> b)
      in if \<not> preserve_bpm \<and> truthy \<and> \<bar>bpm - target_bpm\<bar> > 1 then
           (case tempo_convert_ffmpeg (tempo_ext.truncate ext) file_path target_bpm bpm
                   target_sample_rate of
              None \<Rightarrow> None
            | Some (Inl e) \<Rightarrow> Some (Inl e)
            | Some (Inr tempo_adjusted_file) \<Rightarrow> Some (Inr (tempo_adjusted_file, target_bpm)))
         else
           (let final_bpm = (if truthy then bpm else target_bpm) in
            case info_sample_rate ext file_path of
              Inl e \<Rightarrow> Some (Inl e)
            | Inr sample_rate \<Rightarrow>
                (let working_file =
                       (if sample_rate \<noteq> target_sample_rate then temp_file else file_path)
                 in Some (Inr (working_file, final_bpm)))))"

text \<open>
  The \<^verbatim>\<open>align_beats\<close> branch of \<^verbatim>\<open>process_wav_with_beat_alignment\<close>, the one the
  dataset driver takes. \<open>output_file\<close> is the content of \<^verbatim>\<open>processed_save_path\<close>, and the
  second component of the result its content after the call; the removal of the
  temporary files leaves that path alone. The outer \<open>None\<close> is a call that does not
  return, \<open>Inl e\<close> a call that raises \<open>e\<close>.
\<close>

definition process_wav_with_beat_alignment ::
  "('a, 'b) file_ext_scheme \<Rightarrow> string \<Rightarrow> string \<Rightarrow> 'a list option \<Rightarrow> int \<Rightarrow> rat \<Rightarrow> bool
     \<Rightarrow> int \<Rightarrow> real \<Rightarrow> int
     \<Rightarrow> ((py_error + string option \<times> rat option \<times> process_info \<times> status) \<times> 'a list option) option"
  where
  "process_wav_with_beat_alignment ext file_path processed_save_path output_file
       target_sample_rate target_bpm preserve_bpm target_beats confidence_threshold
       required_time_sig =
     (if \<not> input_exists ext file_path then Some (Inr (None, None, No_info, Failed), output_file)
      else
        (let detected_time_sig = time_signature_of ext file_path in
         if detected_time_sig \<noteq> required_time_sig
         then Some (Inr (None, None, Time_sig_mismatch detected_time_sig required_time_sig,
                         Skipped_time_sig), output_file)
         else
           (case tempo_step ext file_path target_bpm preserve_bpm target_sample_rate of
              None \<Rightarrow> None
            | Some (Inl e) \<Rightarrow> Some (Inl e, output_file)
            | Some (Inr (working_file, final_bpm)) \<Rightarrow>
                (case align_to_downbeat_and_normalize_beats (load_audio ext working_file)
                        (beats_of ext working_file) target_beats target_sample_rate
                        confidence_threshold output_file of
                   (None, output_file') \<Rightarrow> Some (Inr (None, None, No_info, Failed), output_file')
                 | (Some (aligned_wav, info), output_file') \<Rightarrow>
                     (let target_samples_16sec = TARGET_DURATION * target_sample_rate in
                      case ensure_exact_length aligned_wav target_samples_16sec of
                        Inl e \<Rightarrow> Some (Inl e, output_file')
                      | Inr aligned_wav' \<Rightarrow>
                          if final_bpm = 0 then Some (Inl ZeroDivisionError, Some aligned_wav')
                          else Some (Inr (Some processed_save_path, Some final_bpm,
                                          Beat_info info, Success), Some aligned_wav'))))))"

section \<open>Example inputs\<close>

text \<open>A detection result with no beat data, as returned when beat detection fails.\<close>

definition quiet_detection :: detection where
  "quiet_detection = \<lparr>det_beat_times = None, det_downbeat_indices = None, det_bpm = None,
     det_confidence = 0\<rparr>"

text \<open>Five regular beats with a downbeat at the second one, and full confidence.\<close>

definition steady_detection :: detection where
  "steady_detection = \<lparr>det_beat_times = Some [0, 1 / 4, 1 / 2, 3 / 4, 1],
     det_downbeat_indices = Some [1], det_bpm = Some 240, det_confidence = 1\<rparr>"


text \<open>
  A readable 4/4 file of ten seconds of silence at 44100 Hz whose BPM is already the
  target, so that no tempo conversion is made.
\<close>

definition silent_file_ext :: "int file_ext" where
  "silent_file_ext =
     \<lparr>run_ffmpeg_command = (\<lambda>cmd. Inr False), path_exists = (\<lambda>p. False),
      detect_bpm = (\<lambda>p. 120), info_sample_rate = (\<lambda>p. Inr 44100),
      input_exists = (\<lambda>p. True), time_signature_of = (\<lambda>p. 4),
      file_bpm = (\<lambda>p. Some 120), load_audio = (\<lambda>p. Some (replicate 441000 0)),
      beats_of = (\<lambda>p. quiet_detection)\<rparr>"

section \<open>Properties of the Length Normalizer\<close>

lemma length_repeat: "length (repeat wav k) = nat k * length wav"
  by (simp add: repeat_def length_concat sum_list_replicate)

lemma ceil_div_covers:
  assumes "0 < b"
  shows "a \<le> \<lceil>rat_of_int a / rat_of_int b\<rceil> * b"
proof -
  have "rat_of_int a / rat_of_int b \<le> rat_of_int \<lceil>rat_of_int a / rat_of_int b\<rceil>"
    by (rule le_of_int_ceiling)
  moreover have "0 < rat_of_int b"
    using assms by simp
  ultimately have "rat_of_int a \<le> rat_of_int \<lceil>rat_of_int a / rat_of_int b\<rceil> * rat_of_int b"
    by (simp only: pos_divide_le_eq)
  then have "rat_of_int a \<le> rat_of_int (\<lceil>rat_of_int a / rat_of_int b\<rceil> * b)"
    by simp
  then show ?thesis
    by (simp only: of_int_le_iff)
qed

lemma ensure_exact_length_extend:
  assumes "wav \<noteq> []" and "int (length wav) < target_samples"
  shows "ensure_exact_length wav target_samples =
    Inr (take (nat target_samples)
          (repeat wav \<lceil>rat_of_int target_samples / rat_of_int (int (length wav))\<rceil>))"
  using assms by (simp add: ensure_exact_length_def ceil_div_def slice_to_def)

lemma length_extend:
  assumes "wav \<noteq> []" and "0 \<le> target_samples"
  shows "length (take (nat target_samples)
          (repeat wav \<lceil>rat_of_int target_samples / rat_of_int (int (length wav))\<rceil>))
         = nat target_samples"
proof -
  let ?k = "\<lceil>rat_of_int target_samples / rat_of_int (int (length wav))\<rceil>"
  have pos: "0 < int (length wav)" using assms(1) by simp
  have cover: "target_samples \<le> ?k * int (length wav)"
    by (rule ceil_div_covers [OF pos])
  have "0 \<le> rat_of_int target_samples / rat_of_int (int (length wav))"
    using assms(2) by simp
  then have "0 \<le> ?k"
    by (simp only: zero_le_ceiling)
  then have "int (nat ?k * length wav) = ?k * int (length wav)"
    by simp
  with cover have "nat target_samples \<le> nat ?k * length wav"
    by linarith
  then show ?thesis
    by (simp add: length_repeat)
qed

lemma ensure_exact_length_length:
  assumes "wav \<noteq> []" and "0 \<le> target_samples"
  shows "\<exists>out. ensure_exact_length wav target_samples = Inr out \<and> length out = nat target_samples"
proof -
  consider "int (length wav) = target_samples" | "int (length wav) < target_samples"
    | "target_samples < int (length wav)" by linarith
  then show ?thesis
  proof cases
    case 1
    then show ?thesis by (auto simp: ensure_exact_length_def)
  next
    case 2
    show ?thesis
      using ensure_exact_length_extend [OF assms(1) 2] length_extend [OF assms] by simp
  next
    case 3
    then show ?thesis using assms(2)
      by (auto simp: ensure_exact_length_def slice_to_def)
  qed
qed

text \<open>
  Claim C2. For every buffer with at least one sample and every positive target sample
  count, \<open>ensure_exact_length\<close> returns (it does not raise) a buffer of exactly
  \<open>target_samples\<close> samples: the buffer itself when its length is already the target, the
  buffer tiled \<open>\<lceil>target / length\<rceil>\<close> times and cut to the target when it is shorter, and
  its first \<open>target_samples\<close> samples when it is longer.
\<close>

theorem ensure_exact_length_exact:
  assumes "wav \<noteq> []" and "0 < target_samples"
  shows "\<exists>out. ensure_exact_length wav target_samples = Inr out
           \<and> int (length out) = target_samples
           \<and> (int (length wav) = target_samples \<longrightarrow> out = wav)
           \<and> (int (length wav) < target_samples \<longrightarrow>
                out = take (nat target_samples)
                  (repeat wav \<lceil>rat_of_int target_samples / rat_of_int (int (length wav))\<rceil>))
           \<and> (target_samples < int (length wav) \<longrightarrow> out = take (nat target_samples) wav)"
proof -
  have nonneg: "0 \<le> target_samples" using assms(2) by simp
  obtain out where out: "ensure_exact_length wav target_samples = Inr out"
    and len: "length out = nat target_samples"
    using ensure_exact_length_length [OF assms(1) nonneg] by blast
  have l: "int (length out) = target_samples"
    using len nonneg by simp
  have same: "int (length wav) = target_samples \<longrightarrow> out = wav"
    using out by (auto simp: ensure_exact_length_def)
  have shorter: "int (length wav) < target_samples \<longrightarrow>
      out = take (nat target_samples)
        (repeat wav \<lceil>rat_of_int target_samples / rat_of_int (int (length wav))\<rceil>)"
    using out ensure_exact_length_extend [OF assms(1)] by auto
  have longer: "target_samples < int (length wav) \<longrightarrow> out = take (nat target_samples) wav"
    using out nonneg by (auto simp: ensure_exact_length_def slice_to_def)
  show ?thesis
    using out l same shorter longer by blast
qed

theorem ensure_exact_length_exact_witness:
  "[1, 2, 3 :: int] \<noteq> [] \<and> (0::int) < 7
   \<and> ensure_exact_length [1, 2, 3 :: int] 7 = Inr [1, 2, 3, 1, 2, 3, 1]
   \<and> ensure_exact_length [1, 2, 3 :: int] 2 = Inr [1, 2]
   \<and> ensure_exact_length [1, 2, 3 :: int] 3 = Inr [1, 2, 3]"
proof -
  have ne: "[1, 2, 3 :: int] \<noteq> []" by simp
  have k: "\<lceil>rat_of_int 7 / rat_of_int (int (length [1, 2, 3 :: int]))\<rceil> = 3"
    by (simp add: ceiling_eq_iff)
  have r: "repeat [1, 2, 3 :: int] 3 = [1, 2, 3, 1, 2, 3, 1, 2, 3]"
    by (simp add: repeat_def eval_nat_numeral)
  have "ensure_exact_length [1, 2, 3 :: int] 7 = Inr [1, 2, 3, 1, 2, 3, 1]"
    using ensure_exact_length_exact [OF ne, of 7] unfolding k r by auto
  moreover have "ensure_exact_length [1, 2, 3 :: int] 2 = Inr [1, 2]"
    using ensure_exact_length_exact [OF ne, of 2] by auto
  moreover have "ensure_exact_length [1, 2, 3 :: int] 3 = Inr [1, 2, 3]"
    using ensure_exact_length_exact [OF ne, of 3] by auto
  ultimately show ?thesis by simp
qed

text \<open>
  Claim C3. The Length Normalizer is idempotent: a buffer whose length already equals the
  target is returned unchanged, and for a buffer with at least one sample and a positive
  target, normalising the normalised buffer again returns that same buffer.
\<close>

theorem ensure_exact_length_idempotent:
  "(int (length wav) = target_samples \<longrightarrow> ensure_exact_length wav target_samples = Inr wav)
   \<and> (wav \<noteq> [] \<and> 0 < target_samples \<longrightarrow>
        (\<exists>out. ensure_exact_length wav target_samples = Inr out
              \<and> ensure_exact_length out target_samples = Inr out))"
proof (intro conjI impI)
  assume "int (length wav) = target_samples"
  then show "ensure_exact_length wav target_samples = Inr wav"
    by (simp add: ensure_exact_length_def)
next
  assume a: "wav \<noteq> [] \<and> 0 < target_samples"
  then have "0 \<le> target_samples" by simp
  with a obtain out where out: "ensure_exact_length wav target_samples = Inr out"
    and len: "length out = nat target_samples"
    using ensure_exact_length_length by blast
  from len a have "int (length out) = target_samples" by simp
  then have "ensure_exact_length out target_samples = Inr out"
    by (simp add: ensure_exact_length_def)
  with out show "\<exists>out. ensure_exact_length wav target_samples = Inr out
      \<and> ensure_exact_length out target_samples = Inr out"
    by blast
qed

theorem ensure_exact_length_idempotent_witness:
  "int (length [4, 5 :: int]) = 2 \<and> ensure_exact_length [4, 5 :: int] 2 = Inr [4, 5]
   \<and> [4, 5 :: int] \<noteq> [] \<and> (0::int) < 5
   \<and> (\<exists>out. ensure_exact_length [4, 5 :: int] 5 = Inr out
            \<and> ensure_exact_length out 5 = Inr out)"
  using ensure_exact_length_idempotent [of "[4, 5 :: int]" 2]
    ensure_exact_length_idempotent [of "[4, 5 :: int]" 5]
  by simp

section \<open>Properties of the beat confidence and the estimators\<close>

lemma np_diff_replicate: "np_diff (replicate n (t::real)) = replicate (n - 1) 0"
proof -
  have "tl (replicate n t) = replicate (n - 1) t" by (cases n) simp_all
  moreover have "min n (n - 1) = n - 1" by simp
  ultimately have "zip (replicate n t) (tl (replicate n t)) = replicate (n - 1) (t, t)"
    by (simp only: zip_replicate)
  then show ?thesis by (simp add: np_diff_def)
qed

lemma sum_list_replicate_zero: "sum_list (replicate n (0::real)) = 0"
  by (induction n) simp_all

lemma length_np_diff: "length (np_diff xs) = length xs - 1"
  by (simp add: np_diff_def)

lemma calculate_beat_confidence_cases:
  "calculate_beat_confidence beat_times =
     (if length beat_times < 3 \<or> np_mean (np_diff beat_times) = 0 then Inr 0
      else Inr (min 1 (max 0 (1 - np_std (np_diff beat_times) / np_mean (np_diff beat_times) * 2))))"
proof (cases "length beat_times < 3")
  case True
  then show ?thesis by (simp add: calculate_beat_confidence_def)
next
  case False
  then have "length (np_diff beat_times) \<noteq> 0" by (simp add: length_np_diff)
  with False show ?thesis
    by (simp only: calculate_beat_confidence_def float_div_def Let_def) simp
qed

text \<open>
  Claim C4. For every list of beat timestamps \<open>calculate_beat_confidence\<close> returns a
  value in \<open>[0, 1]\<close>; it returns 0 when fewer than 3 beats are supplied, and with 3 or
  more beats and a positive mean inter-beat gap it returns 1 minus twice the coefficient
  of variation (standard deviation over mean of the gaps), clamped to \<open>[0, 1]\<close>.
\<close>

theorem beat_confidence_range:
  "(\<exists>c. calculate_beat_confidence beat_times = Inr c \<and> 0 \<le> c \<and> c \<le> 1)
   \<and> (length beat_times < 3 \<longrightarrow> calculate_beat_confidence beat_times = Inr 0)
   \<and> (3 \<le> length beat_times \<and> 0 < np_mean (np_diff beat_times) \<longrightarrow>
        calculate_beat_confidence beat_times =
          Inr (min 1 (max 0 (1 - 2 * (np_std (np_diff beat_times) / np_mean (np_diff beat_times))))))"
  by (simp add: calculate_beat_confidence_cases mult.commute)

theorem beat_confidence_range_witness:
  "length [0, 1 :: real] < 3 \<and> calculate_beat_confidence [0, 1] = Inr 0
   \<and> 3 \<le> length [0, 3, 8 :: real] \<and> 0 < np_mean (np_diff [0, 3, 8])
   \<and> calculate_beat_confidence [0, 3, 8] = Inr (1 / 2)"
proof -
  have d: "np_diff [0, 3, 8 :: real] = [3, 5]" by (simp add: np_diff_def)
  have m: "np_mean [3, 5] = 4" by (simp add: np_mean_def)
  have s: "np_std [3, 5] = 1" by (simp add: np_std_def np_mean_def)
  show ?thesis
    using beat_confidence_range [of "[0, 1]"] beat_confidence_range [of "[0, 3, 8]"]
    by (simp add: d m s)
qed

text \<open>
  Claim C10. \<open>calculate_beat_confidence\<close> is total: it returns a value and never
  reaches the division with a zero mean gap. For 3 or more identical timestamps the mean
  gap is 0 and the result is 0.
\<close>

theorem beat_confidence_total:
  "(\<exists>c. calculate_beat_confidence beat_times = Inr c)
   \<and> (3 \<le> n \<longrightarrow> np_mean (np_diff (replicate n t)) = 0
                 \<and> calculate_beat_confidence (replicate n t) = Inr 0)"
  by (simp add: calculate_beat_confidence_cases np_diff_replicate np_mean_def sum_list_replicate_zero)

theorem beat_confidence_total_witness:
  "(3::nat) \<le> 3 \<and> calculate_beat_confidence (replicate 3 (5 / 2)) = Inr 0"
  using beat_confidence_total [of "[]" 3 "5 / 2"] by simp

text \<open>
  Claim C5. When the onset envelope was computed and beat tracking returned fewer than 8
  beat frames, \<open>estimate_time_signature\<close> returns 4, whatever the envelope and the peak
  finder are.
\<close>

theorem time_signature_few_beats:
  assumes "onset = Some onset_env" and "beat = Some beat_frames" and "length beat_frames < 8"
  shows "estimate_time_signature find_peaks onset beat = 4"
  using assms by (simp add: estimate_time_signature_def)

theorem time_signature_few_beats_witness:
  "length [0, 10, 20 :: nat] < 8
   \<and> estimate_time_signature (\<lambda>xs h. [0, 1, 2]) (Some [1, 5, 2]) (Some [0, 10, 20]) = 4"
  using time_signature_few_beats [of "Some [1, 5, 2]" "[1, 5, 2]" "Some [0, 10, 20]" "[0, 10, 20]"
      "\<lambda>xs h. [0, 1, 2]"]
  by simp

text \<open>With 8 or more beats the estimate follows the peak spacing: peaks 3 beats apart give 3.\<close>

lemma time_signature_three: "estimate_time_signature (\<lambda>xs h. [1, 4, 7, 10]) (Some [1,5,2,3,6,1,2,7,2,1,8,1]) (Some [0,1,2,3,4,5,6,7,8,9,10,11]) = 3"
  by (simp add: estimate_time_signature_def clipped_strengths_def np_diff_def np_histogram_def np_argmax_def Let_def upt_rec numeral_nat)

text \<open>
  Claim C9. The claim asks for an empty downbeat set when peak finding yields no peaks.
  On four beats whose combined strength rises monotonically there is no peak, and the
  source ends without a \<^verbatim>\<open>return\<close>: the value is Python's \<^verbatim>\<open>None\<close>, not an empty array.
\<close>

theorem downbeats_no_peaks_returns_none:
  "estimate_downbeats_librosa (\<lambda>xs d. Some []) (Some [1, 2, 3, 4]) (Some [1, 1, 1, 1])
     [0, 1, 2, 3] 4 = None"
  by (simp add: estimate_downbeats_librosa_def Let_def)

text \<open>The same holds whenever peak finding is reached and finds nothing.\<close>

lemma downbeats_no_peaks_general:
  assumes "time_signature \<le> length beat_frames" "onset = Some onset_env" "chroma = Some cs"
   "filter (\<lambda>f. f < length onset_env) beat_frames \<noteq> []"
   "\<And>xs. find_peaks xs time_signature = Some []"
  shows "estimate_downbeats_librosa find_peaks onset chroma beat_frames time_signature = None"
  using assms by (simp add: estimate_downbeats_librosa_def Let_def)

text \<open>A failing onset or chroma computation does give the empty set.\<close>

lemma downbeats_failure:
  "time_signature \<le> length beat_frames \<Longrightarrow> onset = None \<or> chroma = None \<Longrightarrow> estimate_downbeats_librosa find_peaks onset chroma beat_frames time_signature = Some []"
  by (auto simp add: estimate_downbeats_librosa_def Let_def split: option.splits)

section \<open>Properties of the Tempo Converter\<close>

lemma ceiling_half_less:
  assumes "2 \<le> (s::rat)"
  shows "nat \<lceil>s / 2\<rceil> < nat \<lceil>s\<rceil>"
proof -
  have "s / 2 \<le> s - 1" using assms by simp
  then have "\<lceil>s / 2\<rceil> \<le> \<lceil>s - 1\<rceil>" by (rule ceiling_mono)
  then have "\<lceil>s / 2\<rceil> \<le> \<lceil>s\<rceil> - 1" by simp
  moreover have "2 \<le> \<lceil>s\<rceil>" using assms by (simp add: le_ceiling_iff)
  ultimately show ?thesis by linarith
qed

lemma atempo_up_chain:
  "1 \<le> r \<Longrightarrow>
   \<exists>c. atempo_up r acc = Some (acc @ c) \<and> (\<forall>f \<in> set c. 1 / 2 \<le> f \<and> f \<le> 2) \<and> prod_list c = r"
proof (induction "nat \<lceil>r\<rceil>" arbitrary: r acc rule: less_induct)
  case less
  consider "r = 1" | "1 < r" "r < 2" | "2 \<le> r" using less.prems by linarith
  then show ?case
  proof cases
    case 1
    then have "atempo_up r acc = Some (acc @ [])"
      by (subst atempo_up.simps) simp
    with 1 show ?thesis by fastforce
  next
    case 2
    then have "atempo_up r acc = atempo_up 1 (acc @ [r])"
      by (subst atempo_up.simps) simp
    also have "\<dots> = Some (acc @ [r])"
      by (subst atempo_up.simps) simp
    finally show ?thesis using 2 by fastforce
  next
    case 3
    then have step: "atempo_up r acc = atempo_up (r / 2) (acc @ [2])"
      by (subst atempo_up.simps) simp
    have "nat \<lceil>r / 2\<rceil> < nat \<lceil>r\<rceil>" by (rule ceiling_half_less [OF 3])
    moreover have "1 \<le> r / 2" using 3 by simp
    ultimately obtain c where c: "atempo_up (r / 2) (acc @ [2]) = Some ((acc @ [2]) @ c)"
      and b: "\<forall>f \<in> set c. 1 / 2 \<le> f \<and> f \<le> 2" and p: "prod_list c = r / 2"
      using less.hyps [of "r / 2" "acc @ [2]"] by blast
    have "atempo_up r acc = Some (acc @ (2 # c))" using step c by simp
    moreover have "\<forall>f \<in> set (2 # c). 1 / 2 \<le> f \<and> f \<le> 2" using b by simp
    moreover have "prod_list (2 # c) = r" using p by simp
    ultimately show ?thesis by blast
  qed
qed

lemma atempo_down_chain:
  "0 < r \<Longrightarrow> r \<le> 1 \<Longrightarrow>
   \<exists>c. atempo_down r acc = Some (acc @ c) \<and> (\<forall>f \<in> set c. 1 / 2 \<le> f \<and> f \<le> 2) \<and> prod_list c = r"
proof (induction "nat \<lceil>1 / r\<rceil>" arbitrary: r acc rule: less_induct)
  case less
  consider "r = 1" | "1 / 2 < r" "r < 1" | "r \<le> 1 / 2" using less.prems by linarith
  then show ?case
  proof cases
    case 1
    then have "atempo_down r acc = Some (acc @ [])"
      by (subst atempo_down.simps) simp
    with 1 show ?thesis by fastforce
  next
    case 2
    then have "atempo_down r acc = atempo_down 1 (acc @ [r])"
      by (subst atempo_down.simps) (simp add: max_def)
    also have "\<dots> = Some (acc @ [r])"
      by (subst atempo_down.simps) simp
    finally show ?thesis using 2 by fastforce
  next
    case 3
    then have "max (1 / 2) r = 1 / 2" by (simp add: max_def)
    then have step: "atempo_down r acc = atempo_down (r * 2) (acc @ [1 / 2])"
      using 3 by (subst atempo_down.simps) simp
    have "2 \<le> 1 / r" using 3 less.prems(1) by (simp add: pos_le_divide_eq)
    then have "nat \<lceil>(1 / r) / 2\<rceil> < nat \<lceil>1 / r\<rceil>" by (rule ceiling_half_less)
    then have "nat \<lceil>1 / (r * 2)\<rceil> < nat \<lceil>1 / r\<rceil>" by (simp add: mult.commute)
    moreover have "0 < r * 2" "r * 2 \<le> 1" using 3 less.prems(1) by simp_all
    ultimately obtain c where c: "atempo_down (r * 2) (acc @ [1 / 2]) = Some ((acc @ [1 / 2]) @ c)"
      and b: "\<forall>f \<in> set c. 1 / 2 \<le> f \<and> f \<le> 2" and p: "prod_list c = r * 2"
      using less.hyps [of "r * 2" "acc @ [1 / 2]"] by blast
    have "atempo_down r acc = Some (acc @ ((1 / 2) # c))" using step c by simp
    moreover have "\<forall>f \<in> set ((1 / 2) # c). 1 / 2 \<le> f \<and> f \<le> 2" using b by simp
    moreover have "prod_list ((1 / 2) # c) = r" using p by simp
    ultimately show ?thesis by blast
  qed
qed

lemma atempo_chain_factors_helper:
  assumes "0 < speed_ratio"
  shows "\<exists>chain. build_atempo_chain speed_ratio = Some chain
           \<and> (\<forall>f \<in> set chain. 1 / 2 \<le> f \<and> f \<le> 2)
           \<and> prod_list chain = speed_ratio"
proof -
  consider "2 < speed_ratio" | "speed_ratio < 1 / 2" | "1 / 2 \<le> speed_ratio" "speed_ratio \<le> 2"
    by linarith
  then show ?thesis
  proof cases
    case 1
    then have "1 \<le> speed_ratio" by simp
    from atempo_up_chain [OF this, of "[]"] 1 show ?thesis
      by (simp add: build_atempo_chain_def)
  next
    case 2
    then have "speed_ratio \<le> 1" by simp
    from atempo_down_chain [OF assms this, of "[]"] 2 show ?thesis
      by (simp add: build_atempo_chain_def)
  next
    case 3
    then show ?thesis by (simp add: build_atempo_chain_def)
  qed
qed

text \<open>
  Claim C7. For every positive speed ratio the chain loops end, every factor of the
  \<^verbatim>\<open>atempo\<close> chain lies in \<open>[1/2, 2]\<close>, and the product of the factors is the speed ratio.
\<close>

theorem atempo_chain_factors:
  assumes "0 < speed_ratio"
  shows "\<exists>chain. build_atempo_chain speed_ratio = Some chain
           \<and> (\<forall>f \<in> set chain. 1 / 2 \<le> f \<and> f \<le> 2)
           \<and> prod_list chain = speed_ratio"
  using assms by (rule atempo_chain_factors_helper)

lemma build_chain_3: "build_atempo_chain 3 = Some [2, 3 / 2]"
  by (simp add: build_atempo_chain_def atempo_up.simps)

lemma build_chain_fifth: "build_atempo_chain (1 / 5) = Some [1 / 2, 1 / 2, 4 / 5]"
  by (simp add: build_atempo_chain_def atempo_down.simps)

theorem atempo_chain_factors_witness:
  "(0::rat) < 3 \<and> build_atempo_chain 3 = Some [2, 3 / 2]
   \<and> prod_list [2, 3 / 2 :: rat] = 3
   \<and> (0::rat) < 1 / 5 \<and> build_atempo_chain (1 / 5) = Some [1 / 2, 1 / 2, 4 / 5]
   \<and> prod_list [1 / 2, 1 / 2, 4 / 5 :: rat] = 1 / 5"
  using atempo_chain_factors [of 3] atempo_chain_factors [of "1 / 5"]
  by (simp add: build_chain_3 build_chain_fifth)


lemma atempo_down_returns_positive:
  assumes "atempo_down remaining atempo_chain = Some result"
  shows "0 < remaining"
proof (rule atempo_down.raw_induct [where P = "\<lambda>r c y. 0 < r", OF _ assms])
  fix loop :: "rat \<Rightarrow> rat list \<Rightarrow> rat list option" and r c y
  assume ih: "\<And>r c y. loop r c = Some y \<Longrightarrow> 0 < r"
    and unfolded: "(if r < 1 then loop (r / max (1 / 2) r) (c @ [max (1 / 2) r]) else Some c) = Some y"
  show "0 < r"
  proof (cases "r < 1")
    case True
    with unfolded have "loop (r / max (1 / 2) r) (c @ [max (1 / 2) r]) = Some y"
      by simp
    then have "0 < r / max (1 / 2) r" by (rule ih)
    moreover have "0 < max (1 / 2) r" by (simp add: max_def)
    ultimately show ?thesis by (simp add: zero_less_divide_iff)
  next
    case False
    then show ?thesis by simp
  qed
qed

text \<open>
  Outside the positive speed ratios the call does not return the input file: a source BPM
  of 0 raises at the division, and a ratio that is not positive never leaves the chain
  loop.
\<close>

lemma tempo_convert_zero_bpm:
  "tempo_convert_ffmpeg ext input_file target_bpm 0 target_sample_rate
     = Some (Inl ZeroDivisionError)"
  by (simp add: tempo_convert_ffmpeg_def)

lemma tempo_convert_not_positive:
  assumes "target_bpm / original_bpm \<le> 0" and "original_bpm \<noteq> 0"
  shows "tempo_convert_ffmpeg ext input_file target_bpm original_bpm target_sample_rate = None"
proof -
  have "atempo_down (target_bpm / original_bpm) [] = None"
  proof (cases "atempo_down (target_bpm / original_bpm) []")
    case None
    then show ?thesis .
  next
    case (Some result)
    from atempo_down_returns_positive [OF this] assms(1) show ?thesis by simp
  qed
  moreover have "\<not> 2 < target_bpm / original_bpm" and "target_bpm / original_bpm < 1 / 2"
    using assms(1) by linarith+
  ultimately have "build_atempo_chain (target_bpm / original_bpm) = None"
    by (simp only: build_atempo_chain_def if_False if_True)
  with assms(2) show ?thesis
    by (simp add: tempo_convert_ffmpeg_def Let_def)
qed

text \<open>An exception of \<^verbatim>\<open>torchaudio.info\<close> escapes as well.\<close>

lemma tempo_convert_unreadable_input:
  "tempo_convert_ffmpeg unreadable_input ''loops/a.wav'' 120 100 44100 = Some (Inl LoadError)"
  by (simp add: tempo_convert_ffmpeg_def build_atempo_chain_def unreadable_input_def Let_def)




text \<open>When both strategies succeed, the one whose detected BPM is closer to the target wins.\<close>

lemma tempo_convert_picks_closer:
  "tempo_convert_ffmpeg
     \<lparr>run_ffmpeg_command = (\<lambda>cmd. Inr True), path_exists = (\<lambda>p. True),
      detect_bpm = (\<lambda>p. if p = ''temp_atempo_a.wav'' then 118 else 121),
      info_sample_rate = (\<lambda>p. Inr 44100)\<rparr>
     ''loops/a.wav'' 120 100 44100 = Some (Inr ''temp_asetrate_a.wav'')"
  by (simp add: tempo_convert_ffmpeg_def build_atempo_chain_def consider_candidate_def basename_def Let_def)

section \<open>Properties of the Beat-Aligned Windower and the pipeline\<close>

lemma ensure_exact_length_Inr_length:
  assumes "ensure_exact_length wav target_samples = Inr w" and "0 \<le> target_samples"
  shows "int (length w) = target_samples"
proof (cases "wav = []")
  case True
  with assms show ?thesis
    by (auto simp: ensure_exact_length_def ceil_div_def split: if_splits)
next
  case False
  from ensure_exact_length_length [OF False assms(2)] assms show ?thesis by auto
qed

lemma py_int_of_int: "py_int (of_int k) = k"
  by (simp add: py_int_def)

lemma target_samples_nonneg:
  assumes "0 \<le> target_beats" and "0 \<le> target_sample_rate"
  shows "0 \<le> target_samples_of target_beats target_sample_rate"
proof -
  have "0 \<le> real_of_int target_beats * (60 / real_of_int TARGET_BPM) * real_of_int target_sample_rate"
    using assms by (simp add: TARGET_BPM_def)
  then show ?thesis
    by (simp add: target_samples_of_def py_int_def Let_def)
qed

lemma target_samples_even:
  assumes "even (target_beats * target_sample_rate)"
  shows "real_of_int (target_samples_of target_beats target_sample_rate)
         = real_of_int target_beats * (60 / real_of_int TARGET_BPM) * real_of_int target_sample_rate"
proof -
  from assms obtain k where k: "target_beats * target_sample_rate = 2 * k" by (auto elim: evenE)
  then have "real_of_int target_beats * real_of_int target_sample_rate = 2 * real_of_int k"
    by (metis of_int_mult of_int_numeral)
  then have e: "real_of_int target_beats * (60 / real_of_int TARGET_BPM) * real_of_int target_sample_rate
      = real_of_int k"
    by (simp add: TARGET_BPM_def)
  show ?thesis
    unfolding target_samples_of_def Let_def e py_int_of_int ..
qed

lemma target_samples_32:
  "target_samples_of 32 target_sample_rate = TARGET_DURATION * target_sample_rate"
proof -
  have "real_of_int 32 * (60 / real_of_int TARGET_BPM) * real_of_int target_sample_rate
        = real_of_int (16 * target_sample_rate)"
    by (simp add: TARGET_BPM_def)
  then show ?thesis
    unfolding target_samples_of_def Let_def TARGET_DURATION_def by (simp only: py_int_of_int)
qed

lemma duration_based_Inr:
  assumes "duration_based wav target_samples info output_file = Inr ((w, info'), output_file')"
  shows "ensure_exact_length wav target_samples = Inr w \<and> output_file' = Some w
         \<and> info' = info\<lparr>info_target_samples := Some target_samples,
                          info_actual_samples := Some (length w)\<rparr>"
  using assms by (auto simp: duration_based_def split: sum.splits)


lemma downbeat_aligned_Inr:
  assumes "downbeat_aligned wav bt db target_beats target_sample_rate target_samples info
             output_file = Inr ((w, info'), output_file')"
    and "0 \<le> target_samples"
  shows "int (length w) = target_samples \<and> output_file' = Some w
         \<and> info_target_samples info' = Some target_samples
         \<and> info_actual_samples info' = Some (length w)"
  using assms
  by (auto simp: downbeat_aligned_def Let_def ensure_exact_length_Inr_length
      split: sum.splits prod.splits)

lemma duration_based_Inr_facts:
  assumes "duration_based wav target_samples info output_file = Inr ((w, info'), output_file')"
    and "0 \<le> target_samples"
  shows "int (length w) = target_samples \<and> output_file' = Some w
         \<and> info_target_samples info' = Some target_samples
         \<and> info_actual_samples info' = Some (length w)
         \<and> info_aligned info' = info_aligned info"
proof -
  from duration_based_Inr [OF assms(1)]
  have e: "ensure_exact_length wav target_samples = Inr w" and o: "output_file' = Some w"
    and i: "info' = info\<lparr>info_target_samples := Some target_samples,
                            info_actual_samples := Some (length w)\<rparr>"
    by simp_all
  from ensure_exact_length_Inr_length [OF e assms(2)] o i show ?thesis by simp
qed

lemma align_try_Inr:
  assumes "align_try wav det target_beats target_sample_rate confidence_threshold output_file
             = Inr ((w, info'), output_file')"
    and "0 \<le> target_samples_of target_beats target_sample_rate"
  shows "int (length w) = target_samples_of target_beats target_sample_rate
         \<and> output_file' = Some w
         \<and> info_target_samples info' = Some (target_samples_of target_beats target_sample_rate)
         \<and> info_actual_samples info' = Some (length w)"
proof -
  let ?ts = "target_samples_of target_beats target_sample_rate"
  from assms(1) consider
      info where "duration_based wav ?ts info output_file = Inr ((w, info'), output_file')"
    | bt db info where "downbeat_aligned wav bt db target_beats target_sample_rate ?ts info
        output_file = Inr ((w, info'), output_file')"
    unfolding align_try_def Let_def
    by (auto split: option.splits if_splits)
  then show ?thesis
  proof cases
    case 1
    from duration_based_Inr_facts [OF 1 assms(2)] show ?thesis by simp
  next
    case 2
    from downbeat_aligned_Inr [OF 2 assms(2)] show ?thesis by simp
  qed
qed

lemma align_except_ok:
  assumes "wav \<noteq> []" and "0 \<le> target_samples_of target_beats target_sample_rate"
  shows "\<exists>w info. align_except (Some wav) target_beats target_sample_rate output_file
                     = (Some (w, info), Some w)
           \<and> ensure_exact_length wav (target_samples_of target_beats target_sample_rate) = Inr w
           \<and> int (length w) = target_samples_of target_beats target_sample_rate
           \<and> info_target_samples info = Some (target_samples_of target_beats target_sample_rate)
           \<and> info_actual_samples info = Some (length w)
           \<and> \<not> info_aligned info"
proof -
  from ensure_exact_length_length [OF assms] obtain w
    where w: "ensure_exact_length wav (target_samples_of target_beats target_sample_rate) = Inr w"
      and l: "length w = nat (target_samples_of target_beats target_sample_rate)" by blast
  from l assms(2) have "int (length w) = target_samples_of target_beats target_sample_rate"
    by simp
  with w show ?thesis
    by (simp add: align_except_def Let_def)
qed

lemma align_exact:
  assumes "wav \<noteq> []" and "0 \<le> target_samples_of target_beats target_sample_rate"
  shows "\<exists>w info. align_to_downbeat_and_normalize_beats (Some wav) det target_beats
                     target_sample_rate confidence_threshold output_file
                     = (Some (w, info), Some w)
           \<and> int (length w) = target_samples_of target_beats target_sample_rate
           \<and> info_target_samples info = Some (target_samples_of target_beats target_sample_rate)
           \<and> info_actual_samples info = Some (length w)"
proof (cases "align_try wav det target_beats target_sample_rate confidence_threshold output_file")
  case (Inl e)
  with align_except_ok [OF assms, of output_file] show ?thesis
    by (auto simp: align_to_downbeat_and_normalize_beats_def)
next
  case (Inr r)
  obtain w info' output_file' where r: "r = ((w, info'), output_file')"
    by (metis surj_pair)
  from align_try_Inr [OF Inr [unfolded r] assms(2)] Inr r show ?thesis
    by (simp add: align_to_downbeat_and_normalize_beats_def)
qed




lemma process_disk:
  assumes ex: "input_exists ext file_path"
    and sig: "time_signature_of ext file_path = required_time_sig"
    and step: "tempo_step ext file_path target_bpm preserve_bpm target_sample_rate
                 = Some (Inr (working_file, final_bpm))"
    and load: "load_audio ext working_file = Some wav" and ne: "wav \<noteq> []"
    and pos: "0 < target_samples_of target_beats target_sample_rate"
    and sr: "0 < target_sample_rate"
  shows "\<exists>aligned_wav info final r.
      align_to_downbeat_and_normalize_beats (Some wav) (beats_of ext working_file) target_beats
        target_sample_rate confidence_threshold output_file
        = (Some (aligned_wav, info), Some aligned_wav)
      \<and> int (length aligned_wav) = target_samples_of target_beats target_sample_rate
      \<and> process_wav_with_beat_alignment ext file_path processed_save_path output_file
          target_sample_rate target_bpm preserve_bpm target_beats confidence_threshold
          required_time_sig = Some (r, Some final)
      \<and> int (length final) = TARGET_DURATION * target_sample_rate
      \<and> (final_bpm \<noteq> 0 \<longrightarrow>
           r = Inr (Some processed_save_path, Some final_bpm, Beat_info info, Success))"
proof -
  have nonneg: "0 \<le> target_samples_of target_beats target_sample_rate" using pos by simp
  from align_exact [OF ne nonneg, of "beats_of ext working_file" confidence_threshold output_file]
  obtain aligned_wav info where
    al: "align_to_downbeat_and_normalize_beats (Some wav) (beats_of ext working_file)
           target_beats target_sample_rate confidence_threshold output_file
           = (Some (aligned_wav, info), Some aligned_wav)"
    and len: "int (length aligned_wav) = target_samples_of target_beats target_sample_rate"
    by blast
  from len pos have ane: "aligned_wav \<noteq> []" by auto
  have "0 \<le> TARGET_DURATION * target_sample_rate"
    using sr by (simp add: TARGET_DURATION_def)
  from ensure_exact_length_length [OF ane this] obtain final where
    fin: "ensure_exact_length aligned_wav (TARGET_DURATION * target_sample_rate) = Inr final"
    and flen: "length final = nat (TARGET_DURATION * target_sample_rate)" by blast
  from flen sr have fl: "int (length final) = TARGET_DURATION * target_sample_rate"
    by (simp add: TARGET_DURATION_def)
  have "process_wav_with_beat_alignment ext file_path processed_save_path output_file
          target_sample_rate target_bpm preserve_bpm target_beats confidence_threshold
          required_time_sig
        = Some (if final_bpm = 0 then Inl ZeroDivisionError
                else Inr (Some processed_save_path, Some final_bpm, Beat_info info, Success),
                Some final)"
    using ex sig step load al fin
    by (simp add: process_wav_with_beat_alignment_def Let_def)
  with al len fl show ?thesis by auto
qed

text \<open>
  Claim C1, as amended. For a file that reaches the windower with at least one sample and
  a positive target sample count, whatever the detection result and the threshold are:
  the windower returns and saves exactly \<open>int(target_beats * 60/TARGET_BPM * sample_rate)\<close>
  samples (the product itself when it is an integer), and
  \<^verbatim>\<open>process_wav_with_beat_alignment\<close> then rewrites the file to exactly
  \<open>TARGET_DURATION * sample_rate\<close> samples, which is the same count when
  \<open>target_beats = 32\<close>.
\<close>

theorem written_samples:
  assumes "input_exists ext file_path"
    and "time_signature_of ext file_path = required_time_sig"
    and "tempo_step ext file_path target_bpm preserve_bpm target_sample_rate
           = Some (Inr (working_file, final_bpm))"
    and "load_audio ext working_file = Some wav" and "wav \<noteq> []"
    and "0 < target_samples_of target_beats target_sample_rate"
    and "0 < target_sample_rate"
  shows "\<exists>aligned_wav info final r.
      align_to_downbeat_and_normalize_beats (Some wav) (beats_of ext working_file) target_beats
        target_sample_rate confidence_threshold output_file
        = (Some (aligned_wav, info), Some aligned_wav)
      \<and> int (length aligned_wav) = target_samples_of target_beats target_sample_rate
      \<and> (even (target_beats * target_sample_rate) \<longrightarrow>
           real (length aligned_wav)
           = real_of_int target_beats * (60 / real_of_int TARGET_BPM)
             * real_of_int target_sample_rate)
      \<and> process_wav_with_beat_alignment ext file_path processed_save_path output_file
          target_sample_rate target_bpm preserve_bpm target_beats confidence_threshold
          required_time_sig = Some (r, Some final)
      \<and> int (length final) = TARGET_DURATION * target_sample_rate
      \<and> (final_bpm \<noteq> 0 \<longrightarrow>
           r = Inr (Some processed_save_path, Some final_bpm, Beat_info info, Success))
      \<and> (target_beats = 32 \<longrightarrow>
           int (length final) = target_samples_of target_beats target_sample_rate)"
proof -
  from process_disk [OF assms, where confidence_threshold = confidence_threshold
      and output_file = output_file and processed_save_path = processed_save_path]
  obtain aligned_wav info final r where
    a: "align_to_downbeat_and_normalize_beats (Some wav) (beats_of ext working_file) target_beats
        target_sample_rate confidence_threshold output_file
        = (Some (aligned_wav, info), Some aligned_wav)"
    and l: "int (length aligned_wav) = target_samples_of target_beats target_sample_rate"
    and p: "process_wav_with_beat_alignment ext file_path processed_save_path output_file
          target_sample_rate target_bpm preserve_bpm target_beats confidence_threshold
          required_time_sig = Some (r, Some final)"
    and f: "int (length final) = TARGET_DURATION * target_sample_rate"
    and s: "final_bpm \<noteq> 0 \<longrightarrow>
           r = Inr (Some processed_save_path, Some final_bpm, Beat_info info, Success)"
    by blast
  have e: "even (target_beats * target_sample_rate) \<longrightarrow>
           real (length aligned_wav)
           = real_of_int target_beats * (60 / real_of_int TARGET_BPM)
             * real_of_int target_sample_rate"
  proof
    assume "even (target_beats * target_sample_rate)"
    from target_samples_even [OF this] l show "real (length aligned_wav)
           = real_of_int target_beats * (60 / real_of_int TARGET_BPM)
             * real_of_int target_sample_rate"
      by (metis of_int_of_nat_eq)
  qed
  have t: "target_beats = 32 \<longrightarrow>
           int (length final) = target_samples_of target_beats target_sample_rate"
    using f by (simp add: target_samples_32)
  from a l e p f s t show ?thesis by blast
qed

lemma tempo_step_silent:
  "tempo_step silent_file_ext ''loops/a.wav'' 120 False 44100 = Some (Inr (''loops/a.wav'', 120))"
  by (simp add: tempo_step_def silent_file_ext_def Let_def)

lemma target_samples_16: "target_samples_of 16 44100 = 352800"
  by (simp add: target_samples_of_def TARGET_BPM_def py_int_def Let_def)

text \<open>
  Claim C1 as stated fails for \<open>target_beats = 16\<close>: the claim asks for
  \<open>16 * 60/120 * 44100 = 352800\<close> samples on disk, and the file left by
  \<^verbatim>\<open>process_wav_with_beat_alignment\<close> has \<open>16 * 44100 = 705600\<close>.
\<close>

theorem written_samples_counterexample:
  "map_option (map_option length \<circ> snd)
     (process_wav_with_beat_alignment silent_file_ext ''loops/a.wav'' ''out/a_processed.wav''
        None 44100 120 False 16 (3 / 10) 4) = Some (Some 705600)
   \<and> real_of_int 16 * (60 / real_of_int TARGET_BPM) * real_of_int 44100 = 352800"
proof -
  have ne: "replicate 441000 (0::int) \<noteq> []" by simp
  have pos: "0 < target_samples_of 16 44100" by (simp add: target_samples_16)
  from process_disk [where ext = silent_file_ext and required_time_sig = 4
      and confidence_threshold = "3 / 10" and output_file = None
      and processed_save_path = "''out/a_processed.wav''",
      OF _ _ tempo_step_silent _ ne pos]
  obtain r final where
    p: "process_wav_with_beat_alignment silent_file_ext ''loops/a.wav'' ''out/a_processed.wav''
        None 44100 120 False 16 (3 / 10) 4 = Some (r, Some final)"
    and f: "int (length final) = TARGET_DURATION * 44100"
    by (auto simp: silent_file_ext_def)
  from f have "length final = 705600" by (simp add: TARGET_DURATION_def)
  with p show ?thesis by (simp add: TARGET_BPM_def)
qed

lemma target_samples_2_4: "target_samples_of 2 4 = 4"
  by (simp add: target_samples_of_def TARGET_BPM_def py_int_def Let_def)


text \<open>
  With enough beats and confidence, a downbeat value of \<^verbatim>\<open>None\<close> makes the condition of
  the source raise: \<^verbatim>\<open>len(None)\<close> is a \<^verbatim>\<open>TypeError\<close>, which the handler turns into
  duration-based processing with the handler's own \<^verbatim>\<open>beat_info\<close>.
\<close>

lemma align_try_none_downbeats_raises:
  assumes "det_beat_times det = Some bt" and "\<not> det_confidence det < confidence_threshold"
    and "\<not> length bt < 4" and "det_downbeat_indices det = None"
  shows "align_try wav det target_beats target_sample_rate confidence_threshold output_file
         = Inl TypeError"
  using assms by (simp add: align_try_def Let_def)


lemma align_steady:
  "align_to_downbeat_and_normalize_beats (Some [10, 11, 12, 13, 14, 15, 16, 17 :: int])
     steady_detection 2 4 (3 / 10) None
   = (Some ([11, 12, 13, 14],
        \<lparr>info_detected_bpm = Some 240, info_confidence = 1, info_num_beats = Some 5,
         info_num_downbeats = Some 1, info_aligned = True, info_start_sample = Some 1,
         info_target_samples = Some 4, info_actual_samples = Some 4\<rparr>),
      Some [11, 12, 13, 14])"
  by (simp add: align_to_downbeat_and_normalize_beats_def align_try_def downbeat_aligned_def
      initial_beat_info_def steady_detection_def target_samples_2_4 np_take_def np_index_def
      extract_segment_def slice_range_def slice_bound_def ensure_exact_length_def py_int_def
      Let_def)


lemma target_samples_32_44100: "target_samples_of 32 44100 = 705600"
  by (simp add: target_samples_of_def TARGET_BPM_def py_int_def Let_def)

theorem written_samples_witness:
  "input_exists silent_file_ext ''loops/a.wav''
   \<and> time_signature_of silent_file_ext ''loops/a.wav'' = 4
   \<and> tempo_step silent_file_ext ''loops/a.wav'' 120 False 44100 = Some (Inr (''loops/a.wav'', 120))
   \<and> load_audio silent_file_ext ''loops/a.wav'' = Some (replicate 441000 0)
   \<and> replicate 441000 (0::int) \<noteq> []
   \<and> 0 < target_samples_of 32 44100 \<and> (0::int) < 44100
   \<and> (\<exists>aligned_wav info final.
        align_to_downbeat_and_normalize_beats (Some (replicate 441000 (0::int)))
          (beats_of silent_file_ext ''loops/a.wav'') 32 44100 (3 / 10) None
          = (Some (aligned_wav, info), Some aligned_wav)
        \<and> int (length aligned_wav) = 705600
        \<and> process_wav_with_beat_alignment silent_file_ext ''loops/a.wav'' ''out/a_processed.wav''
             None 44100 120 False 32 (3 / 10) 4
           = Some (Inr (Some ''out/a_processed.wav'', Some 120, Beat_info info, Success), Some final)
        \<and> int (length final) = 705600)"
proof -
  have ex: "input_exists silent_file_ext ''loops/a.wav''" by (simp add: silent_file_ext_def)
  have sig: "time_signature_of silent_file_ext ''loops/a.wav'' = 4"
    by (simp add: silent_file_ext_def)
  have load: "load_audio silent_file_ext ''loops/a.wav'' = Some (replicate 441000 0)"
    by (simp add: silent_file_ext_def)
  have ne: "replicate 441000 (0::int) \<noteq> []" by simp
  have pos: "0 < target_samples_of 32 44100" by (simp add: target_samples_32_44100)
  have sr: "(0::int) < 44100" by simp
  from written_samples [OF ex sig tempo_step_silent load ne pos sr,
      where confidence_threshold = "3 / 10" and output_file = None
        and processed_save_path = "''out/a_processed.wav''"]
  obtain aligned_wav info final r where
    a: "align_to_downbeat_and_normalize_beats (Some (replicate 441000 (0::int)))
          (beats_of silent_file_ext ''loops/a.wav'') 32 44100 (3 / 10) None
          = (Some (aligned_wav, info), Some aligned_wav)"
    and l: "int (length aligned_wav) = target_samples_of 32 44100"
    and p: "process_wav_with_beat_alignment silent_file_ext ''loops/a.wav'' ''out/a_processed.wav''
             None 44100 120 False 32 (3 / 10) 4 = Some (r, Some final)"
    and f: "int (length final) = TARGET_DURATION * 44100"
    and s: "(120::rat) \<noteq> 0 \<longrightarrow>
             r = Inr (Some ''out/a_processed.wav'', Some 120, Beat_info info, Success)"
    by blast
  from s have r: "r = Inr (Some ''out/a_processed.wav'', Some 120, Beat_info info, Success)"
    by simp
  from l have l': "int (length aligned_wav) = 705600" by (simp only: target_samples_32_44100)
  from f have f': "int (length final) = 705600" by (simp add: TARGET_DURATION_def)
  from a l' p [unfolded r] f'
  have "\<exists>aligned_wav info final.
        align_to_downbeat_and_normalize_beats (Some (replicate 441000 (0::int)))
          (beats_of silent_file_ext ''loops/a.wav'') 32 44100 (3 / 10) None
          = (Some (aligned_wav, info), Some aligned_wav)
        \<and> int (length aligned_wav) = 705600
        \<and> process_wav_with_beat_alignment silent_file_ext ''loops/a.wav'' ''out/a_processed.wav''
             None 44100 120 False 32 (3 / 10) 4
           = Some (Inr (Some ''out/a_processed.wav'', Some 120, Beat_info info, Success), Some final)
        \<and> int (length final) = 705600"
    by blast
  with ex sig tempo_step_silent load ne pos sr show ?thesis by blast
qed

end
